theory Spec2Isabelle
  imports Main "HOL-Library.Word" "HOL-Library.Signed_Division"
begin

section \<open>Session orchestration layer of the bloops bot (internal/bloopsbot/manager.go)\<close>

subsection \<open>Machine integers\<close>

text \<open>
  Go's \<open>int64\<close> and \<open>time.Duration\<close> (an \<open>int64\<close> count of nanoseconds) are 64-bit
  two's complement words; Go's \<open>int\<close> is taken at its width on 64-bit targets.
  Arithmetic wraps, comparisons are signed, and \<open>/\<close> truncates towards zero.
\<close>

type_synonym int64 = "64 word"
type_synonym go_int = "64 word"
type_synonym duration = "64 word"

definition go_div :: "64 word \<Rightarrow> 64 word \<Rightarrow> 64 word" where
  "go_div a b = word_of_int (sint a sdiv sint b)"

definition Second :: duration where
  "Second = 1000000000"

subsection \<open>Errors\<close>

text \<open>
  The sentinels of the storage packages, the manager's own sentinel, any other error
  value (identified by its message), and \<open>fmt.Errorf("<ctx>: %w", err)\<close>, which wraps
  an error under a context string.
\<close>

datatype error =
    ErrTelegramResponseTypeNotFound
  | UserDb_ErrNotFound
  | StatDb_ErrNotFound
  | StateDb_ErrEntryNotFound
  | StateDb_ErrBucketNotFound
  | OtherError string
  | Errorf string error

text \<open>\<open>errors.Is\<close>: the error or one of the errors it wraps is the target.\<close>

fun errors_Is :: "error \<Rightarrow> error \<Rightarrow> bool" where
  "errors_Is (Errorf ctx e) target = (Errorf ctx e = target \<or> errors_Is e target)"
| "errors_Is e target = (e = target)"

subsection \<open>Data model\<close>

text \<open>One completed round of a player (\<open>matchstateModel.Rate\<close>), with the fields the manager reads.\<close>

record rate =
  Rate_Duration :: duration
  Rate_Points :: go_int
  Rate_Bloops :: bool
  Rate_BloopsName :: string

text \<open>\<open>matchstateModel.Player\<close>, with the fields the manager reads.\<close>

record player =
  Player_UserID :: int64
  Player_Offline :: bool
  Player_Rates :: "rate list"

text \<open>
  A bonus task of the catalogue (\<open>resource.Bloops\<close>) is copied as a whole and never
  inspected here; it is identified by its name. The machine state of a match is an
  opaque number. The gateway handle and the two completion callbacks held by a
  \<open>match.Config\<close> are references, identified by a number and by the method they name.
\<close>

type_synonym bloops = string
type_synonym machine_state = nat
type_synonym tg_handle = nat

datatype session_fn = MatchDoneFn | MatchWarnFn | NoSessionFn

record config =
  Timeout :: duration
  Code :: int64
  Tg :: tg_handle
  DoneFn :: session_fn
  WarnFn :: session_fn
  AuthorID :: int64
  AuthorName :: string
  RoundsNum :: go_int
  RoundTime :: go_int
  Bloopses :: "bloops list"
  Categories :: "string list"
  Letters :: "string list"
  Vote :: bool

text \<open>
  \<open>match.Session\<close>: the manager reads both \<open>session.Config.Code\<close> and \<open>session.Code\<close>,
  so the configuration is an embedded struct; \<open>session.Code\<close> is \<open>Code (Config s)\<close>.
  Slices are modelled by their contents.
\<close>

record match_session =
  Config :: config
  State :: machine_state
  CurrRoundIdx :: go_int
  CreatedAt :: int64
  Players :: "player list"

text \<open>\<open>matchstateModel.State\<close>, the persisted form of a match.\<close>

record persisted_state =
  St_Timeout :: duration
  St_AuthorID :: int64
  St_AuthorName :: string
  St_RoundsNum :: go_int
  St_RoundTime :: go_int
  St_Vote :: bool
  St_Code :: int64
  St_State :: machine_state
  St_CurrRoundIdx :: go_int
  St_CreatedAt :: int64
  St_Categories :: "string list"
  St_Letters :: "string list"
  St_Bloopses :: "bloops list"
  St_Players :: "player list"

text \<open>A selectable entry of the wizard (a category or a letter with its inclusion flag).\<close>

record choice =
  Text :: string
  Status :: bool

text \<open>\<open>builder.Session\<close>, the configuration wizard's session.\<close>

record builder_session =
  B_AuthorID :: int64
  B_AuthorName :: string
  B_ChatID :: int64
  B_RoundsNum :: go_int
  B_RoundTime :: go_int
  B_Categories :: "choice list"
  B_Letters :: "choice list"
  B_Vote :: bool
  B_Bloops :: bool

subsection \<open>The registry\<close>

text \<open>
  The five maps of \<open>manager\<close>. One-shot callbacks and command handlers are closures;
  the registry only stores and returns them, so their types are parameters. Every
  method takes the lock for its whole body, so a method is one atomic step on the record.
\<close>

record ('cb, 'h) manager =
  userBuildingSessions :: "int64 \<rightharpoonup> builder_session"
  userMatchSessions :: "int64 \<rightharpoonup> match_session"
  matchSessions :: "int64 \<rightharpoonup> match_session"
  commandCbHandlers :: "int64 \<rightharpoonup> 'cb"
  commandHandlers :: "string \<rightharpoonup> 'h"

definition NewManager :: "('cb, 'h) manager" where
  "NewManager = \<lparr> userBuildingSessions = Map.empty, userMatchSessions = Map.empty,
     matchSessions = Map.empty, commandCbHandlers = Map.empty, commandHandlers = Map.empty \<rparr>"

text \<open>Go's \<open>delete(m, k)\<close>.\<close>

definition delete :: "('k \<rightharpoonup> 'v) \<Rightarrow> 'k \<Rightarrow> ('k \<rightharpoonup> 'v)" where
  "delete m k = m(k := None)"

text \<open>
  The lookups return the entry and the found flag together (\<open>None\<close> is "not found"),
  and the registry as they leave it.
\<close>

definition registerCommandHandler ::
  "('cb, 'h) manager \<Rightarrow> string \<Rightarrow> 'h \<Rightarrow> ('cb, 'h) manager" where
  "registerCommandHandler m cmd handler = m\<lparr> commandHandlers := (commandHandlers m)(cmd \<mapsto> handler) \<rparr>"

definition commandHandler :: "('cb, 'h) manager \<Rightarrow> string \<Rightarrow> 'h option \<times> ('cb, 'h) manager" where
  "commandHandler m cmd = (commandHandlers m cmd, m)"

definition registerCommandCbHandler ::
  "('cb, 'h) manager \<Rightarrow> int64 \<Rightarrow> 'cb \<Rightarrow> ('cb, 'h) manager" where
  "registerCommandCbHandler m userID fn = m\<lparr> commandCbHandlers := (commandCbHandlers m)(userID \<mapsto> fn) \<rparr>"

definition commandCbHandler :: "('cb, 'h) manager \<Rightarrow> int64 \<Rightarrow> 'cb option \<times> ('cb, 'h) manager" where
  "commandCbHandler m userID = (commandCbHandlers m userID, m)"

definition resetUserSessions :: "('cb, 'h) manager \<Rightarrow> int64 \<Rightarrow> ('cb, 'h) manager" where
  "resetUserSessions m userID =
     m\<lparr> userBuildingSessions := delete (userBuildingSessions m) userID,
        userMatchSessions := delete (userMatchSessions m) userID,
        commandCbHandlers := delete (commandCbHandlers m) userID \<rparr>"

definition userBuildingSession ::
  "('cb, 'h) manager \<Rightarrow> int64 \<Rightarrow> builder_session option \<times> ('cb, 'h) manager" where
  "userBuildingSession m userID = (userBuildingSessions m userID, m)"

definition userMatchSession ::
  "('cb, 'h) manager \<Rightarrow> int64 \<Rightarrow> match_session option \<times> ('cb, 'h) manager" where
  "userMatchSession m userID = (userMatchSessions m userID, m)"

definition matchSession ::
  "('cb, 'h) manager \<Rightarrow> int64 \<Rightarrow> match_session option \<times> ('cb, 'h) manager" where
  "matchSession m code = (matchSessions m code, m)"

subsection \<open>Users and gateway events\<close>

text \<open>
  \<open>userModel.User\<close>. The status is an opaque code whose Go zero value is 0; the code of
  \<open>userModel.StatusActive\<close> is a parameter of the functions that use it.
\<close>

record user =
  U_ID :: int64
  U_FirstName :: string
  U_LastName :: string
  U_LanguageCode :: string
  U_Username :: string
  U_Admin :: bool
  U_Status :: nat
  U_CreatedAt :: int64
  U_Stars :: go_int
  U_Bloops :: go_int

text \<open>The zero value of \<open>userModel.User\<close> (\<open>var u userModel.User\<close>).\<close>

definition zero_User :: user where
  "zero_User = \<lparr> U_ID = 0, U_FirstName = [], U_LastName = [], U_LanguageCode = [],
     U_Username = [], U_Admin = False, U_Status = 0, U_CreatedAt = 0, U_Stars = 0, U_Bloops = 0 \<rparr>"

text \<open>
  \<open>tgbotapi.User\<close>, \<open>tgbotapi.Message\<close>, \<open>tgbotapi.CallbackQuery\<close> and
  \<open>tgbotapi.Update\<close>, with the fields the manager reads. A pointer field is an
  option: \<open>None\<close> is \<open>nil\<close>.
\<close>

record tg_user =
  Tg_ID :: go_int
  Tg_FirstName :: string
  Tg_LastName :: string
  Tg_UserName :: string
  Tg_LanguageCode :: string

record message =
  Msg_From :: "tg_user option"
  Msg_Text :: string
  Msg_ChatID :: int64

record callback_query =
  Cq_From :: "tg_user option"
  Cq_Message :: "message option"
  Cq_Data :: string

record update =
  Upd_Message :: "message option"
  Upd_CallbackQuery :: "callback_query option"

text \<open>A call either returns or panics on a nil pointer dereference.\<close>

datatype 'a outcome = Return 'a | NilDeref

subsection \<open>Calls into collaborators\<close>

text \<open>
  The wizard engine, the match engine, the stores and the handlers are collaborators:
  each is a parameter, a function on the state it can touch that returns its result
  and the new state. To state which collaborator calls a method makes, every method
  that calls one also appends the call to a trace that the collaborators cannot write.
\<close>

datatype call =
    Call_Middleware
  | Call_CommandFn
  | Call_OneShotCallback
  | Call_BuilderExecute builder_session
  | Call_MatchExecute match_session int64
  | Call_StateDb_FetchAll
  | Call_StateDb_Clean
  | Call_Run match_session
  | Call_MoveState match_session machine_state

subsection \<open>Command handlers\<close>

type_synonym 's commandHandlerFunc = "user \<Rightarrow> int64 \<Rightarrow> 's \<Rightarrow> error option \<times> 's"
type_synonym 's commandMiddlewareFunc = "user \<Rightarrow> int64 \<Rightarrow> 's \<Rightarrow> (bool \<times> error option) \<times> 's"
type_synonym 's commandCbHandlerFunc = "string \<Rightarrow> 's \<Rightarrow> error option \<times> 's"

record 's command_handler =
  commandFn :: "'s commandHandlerFunc"
  middlewareFn :: "'s commandMiddlewareFunc list"

text \<open>
  \<open>commandHandler.execute\<close>. The loop over \<open>t.middlewareFn\<close> is the recursion on the
  list of the predicates still to run; after the last one the command body runs.
\<close>

fun execute_loop ::
  "'s commandMiddlewareFunc list \<Rightarrow> 's commandHandlerFunc \<Rightarrow> user \<Rightarrow> int64 \<Rightarrow>
     call list \<times> 's \<Rightarrow> error option \<times> call list \<times> 's" where
  "execute_loop [] body u chatID (tr, s) =
     (case body u chatID s of (r, s') \<Rightarrow> (r, tr @ [Call_CommandFn], s'))"
| "execute_loop (f # fs) body u chatID (tr, s) =
     (case f u chatID s of
        ((ok, Some err), s') \<Rightarrow>
          (Some (Errorf ''command handler execute'' err), tr @ [Call_Middleware], s')
      | ((ok, None), s') \<Rightarrow>
          if \<not> ok then (None, tr @ [Call_Middleware], s')
          else execute_loop fs body u chatID (tr @ [Call_Middleware], s'))"

definition execute ::
  "'s command_handler \<Rightarrow> user \<Rightarrow> int64 \<Rightarrow> call list \<times> 's \<Rightarrow> error option \<times> call list \<times> 's" where
  "execute t u chatID ts = execute_loop (middlewareFn t) (commandFn t) u chatID ts"

text \<open>
  What the specification says of a command-table entry, in its words: the predicates
  are evaluated in order, and the verdict is that of the first one that does not pass:
  failure (abort with the error) or "do not proceed" (drop the event); the entry passes
  when every predicate passes. The second component is the state the evaluated
  predicates leave.
\<close>

datatype verdict = Abort error | Drop | Pass

fun middleware_verdict ::
  "'s commandMiddlewareFunc list \<Rightarrow> user \<Rightarrow> int64 \<Rightarrow> 's \<Rightarrow> verdict \<times> 's" where
  "middleware_verdict [] u chatID s = (Pass, s)"
| "middleware_verdict (f # fs) u chatID s =
     (case f u chatID s of
        ((ok, Some err), s') \<Rightarrow> (Abort err, s')
      | ((ok, None), s') \<Rightarrow> if ok then middleware_verdict fs u chatID s' else (Drop, s'))"

subsection \<open>Dispatch\<close>

text \<open>
  The state a handler or an engine can touch: the registry (through the manager's
  methods) and the world outside the manager.
\<close>

type_synonym ('cb, 'h, 'w) mstate = "('cb, 'h) manager \<times> 'w"

type_synonym ('cb, 'h, 'w) builder_execute =
  "builder_session \<Rightarrow> update \<Rightarrow> ('cb, 'h, 'w) mstate \<Rightarrow> error option \<times> ('cb, 'h, 'w) mstate"
type_synonym ('cb, 'h, 'w) match_execute =
  "match_session \<Rightarrow> int64 \<Rightarrow> update \<Rightarrow> ('cb, 'h, 'w) mstate \<Rightarrow> error option \<times> ('cb, 'h, 'w) mstate"

text \<open>The two blocks of \<open>handleCallbackQuery\<close>, the second first.\<close>

definition callback_match_block ::
  "('cb, 'h, 'w) match_execute \<Rightarrow> user \<Rightarrow> update \<Rightarrow>
     call list \<times> ('cb, 'h, 'w) mstate \<Rightarrow> error option \<times> call list \<times> ('cb, 'h, 'w) mstate" where
  "callback_match_block mexec u upd ts =
     (case ts of (tr, (m, w)) \<Rightarrow>
        (case fst (userMatchSession m (U_ID u)) of
           Some session \<Rightarrow>
             (case mexec session (U_ID u) upd (m, w) of
                (Some err, s') \<Rightarrow>
                  (Some (Errorf ''execute playing cb'' err), tr @ [Call_MatchExecute session (U_ID u)], s')
              | (None, s') \<Rightarrow> (None, tr @ [Call_MatchExecute session (U_ID u)], s'))
         | None \<Rightarrow> (None, tr, (m, w))))"

text \<open>
  \<open>handleCallbackQuery\<close>. The log line reads \<open>upd.CallbackQuery.Message.Text\<close> first.
  After a wizard session has executed without error the method goes on to the match
  block: the first block has no \<open>return nil\<close>.
\<close>

definition handleCallbackQuery ::
  "('cb, 'h, 'w) builder_execute \<Rightarrow> ('cb, 'h, 'w) match_execute \<Rightarrow> user \<Rightarrow> update \<Rightarrow>
     call list \<times> ('cb, 'h, 'w) mstate \<Rightarrow>
     (error option \<times> call list \<times> ('cb, 'h, 'w) mstate) outcome" where
  "handleCallbackQuery bexec mexec u upd ts =
     (case Upd_CallbackQuery upd of
        None \<Rightarrow> NilDeref
      | Some q \<Rightarrow>
         (case Cq_Message q of
            None \<Rightarrow> NilDeref
          | Some logged \<Rightarrow>
             (case ts of (tr, (m, w)) \<Rightarrow>
                (case fst (userBuildingSession m (U_ID u)) of
                   Some session \<Rightarrow>
                     (case bexec session upd (m, w) of
                        (Some err, s') \<Rightarrow>
                          Return (Some (Errorf ''execute building cb'' err),
                                  tr @ [Call_BuilderExecute session], s')
                      | (None, s') \<Rightarrow>
                          Return (callback_match_block mexec u upd
                                    (tr @ [Call_BuilderExecute session], s')))
                 | None \<Rightarrow> Return (callback_match_block mexec u upd (tr, (m, w)))))))"

text \<open>
  \<open>route\<close>, the pipeline for message events: every matched step returns. A command
  handler and a one-shot callback stored in the registry are closures over the manager;
  \<open>handler_of\<close> and \<open>callback_of\<close> give the code of a stored reference.
\<close>

definition route ::
  "('h \<Rightarrow> ('cb, 'h, 'w) mstate command_handler) \<Rightarrow>
   ('cb \<Rightarrow> ('cb, 'h, 'w) mstate commandCbHandlerFunc) \<Rightarrow>
   ('cb, 'h, 'w) builder_execute \<Rightarrow> ('cb, 'h, 'w) match_execute \<Rightarrow> user \<Rightarrow> update \<Rightarrow>
     call list \<times> ('cb, 'h, 'w) mstate \<Rightarrow>
     (error option \<times> call list \<times> ('cb, 'h, 'w) mstate) outcome" where
  "route handler_of callback_of bexec mexec u upd ts =
     (case Upd_Message upd of
        None \<Rightarrow> NilDeref
      | Some msg \<Rightarrow>
         (case ts of (tr, (m, w)) \<Rightarrow>
            (case fst (commandHandler m (Msg_Text msg)) of
               Some handler \<Rightarrow>
                 (case execute (handler_of handler) u (Msg_ChatID msg) (tr, (m, w)) of
                    (Some err, ts') \<Rightarrow> Return (Some (Errorf ''execute command text handler'' err), ts')
                  | (None, ts') \<Rightarrow> Return (None, ts'))
             | None \<Rightarrow>
            (case fst (commandCbHandler m (U_ID u)) of
               Some cb \<Rightarrow>
                 (case callback_of cb (Msg_Text msg) (m, w) of
                    (Some err, s') \<Rightarrow> Return (Some (Errorf ''execute cb'' err), tr @ [Call_OneShotCallback], s')
                  | (None, s') \<Rightarrow> Return (None, tr @ [Call_OneShotCallback], s'))
             | None \<Rightarrow>
            (case fst (userBuildingSession m (U_ID u)) of
               Some session \<Rightarrow>
                 (case bexec session upd (m, w) of
                    (Some err, s') \<Rightarrow>
                      Return (Some (Errorf ''execute building session'' err),
                              tr @ [Call_BuilderExecute session], s')
                  | (None, s') \<Rightarrow> Return (None, tr @ [Call_BuilderExecute session], s'))
             | None \<Rightarrow>
            (case fst (userMatchSession m (U_ID u)) of
               Some session \<Rightarrow>
                 (case mexec session (U_ID u) upd (m, w) of
                    (Some err, s') \<Rightarrow>
                      Return (Some (Errorf ''execute playing session'' err),
                              tr @ [Call_MatchExecute session (U_ID u)], s')
                  | (None, s') \<Rightarrow> Return (None, tr @ [Call_MatchExecute session (U_ID u)], s'))
             | None \<Rightarrow> Return (None, tr, (m, w))))))))"

subsection \<open>Persisting and restoring a match\<close>

text \<open>
  \<open>dst := make([]T, len(src)); copy(dst, src)\<close>: a new slice of the length of the source
  whose element at every index is the source's.
\<close>

definition clone :: "'a list \<Rightarrow> 'a list" where
  "clone src = map (\<lambda>i. src ! i) [0..<length src]"

text \<open>
  Modelled from the spec: \<open>match.NewSession\<close> (the match engine's "construction from
  MatchConfig") is not among the sources. It gives a session that holds the given
  configuration; the engine's initial values of the other fields are the parameter
  \<open>fresh\<close>.
\<close>

definition NewSession :: "match_session \<Rightarrow> config \<Rightarrow> match_session" where
  "NewSession fresh c = fresh\<lparr> Config := c \<rparr>"

definition NewMatchSessionFromSerialized ::
  "match_session \<Rightarrow> persisted_state \<Rightarrow> tg_handle \<Rightarrow> session_fn \<Rightarrow> session_fn \<Rightarrow> match_session" where
  "NewMatchSessionFromSerialized fresh ser tg doneFn warnFn =
     (let c = \<lparr> Timeout = St_Timeout ser,
                Code = St_Code ser,
                Tg = tg,
                DoneFn = doneFn,
                WarnFn = warnFn,
                AuthorID = St_AuthorID ser,
                AuthorName = St_AuthorName ser,
                RoundsNum = St_RoundsNum ser,
                RoundTime = St_RoundTime ser,
                Bloopses = clone (St_Bloopses ser),
                Categories = clone (St_Categories ser),
                Letters = clone (St_Letters ser),
                Vote = St_Vote ser \<rparr>;
          s = NewSession fresh c
      in s\<lparr> State := St_State ser,
            CurrRoundIdx := St_CurrRoundIdx ser,
            Players := clone (St_Players ser) \<rparr>)"

text \<open>The \<open>matchstateModel.State\<close> that \<open>serializeGames\<close> builds from a session.\<close>

definition serialized :: "match_session \<Rightarrow> persisted_state" where
  "serialized session =
     \<lparr> St_Timeout = Timeout (Config session),
       St_AuthorID = AuthorID (Config session),
       St_AuthorName = AuthorName (Config session),
       St_RoundsNum = RoundsNum (Config session),
       St_RoundTime = RoundTime (Config session),
       St_Vote = Vote (Config session),
       St_Code = Code (Config session),
       St_State = State session,
       St_CurrRoundIdx = CurrRoundIdx session,
       St_CreatedAt = CreatedAt session,
       St_Categories = clone (Categories (Config session)),
       St_Letters = clone (Letters (Config session)),
       St_Bloopses = clone (Bloopses (Config session)),
       St_Players = clone (Players session) \<rparr>"

text \<open>\<open>serializeGames\<close>; \<open>stateDB_Add\<close> is \<open>m.stateDB.Add\<close>, acting on the world.\<close>

definition serializeGames ::
  "(persisted_state \<Rightarrow> 'w \<Rightarrow> error option \<times> 'w) \<Rightarrow> match_session \<Rightarrow> 'w \<Rightarrow> error option \<times> 'w" where
  "serializeGames stateDB_Add session w =
     (case stateDB_Add (serialized session) w of
        (Some err, w') \<Rightarrow> (Some (Errorf ''state db add'' err), w')
      | (None, w') \<Rightarrow> (None, w'))"

text \<open>The inner loop of \<open>restoreInterruptedGames\<close>: every online player owns the session.\<close>

fun register_online_players ::
  "match_session \<Rightarrow> player list \<Rightarrow> (int64 \<rightharpoonup> match_session) \<Rightarrow> (int64 \<rightharpoonup> match_session)" where
  "register_online_players session [] ums = ums"
| "register_online_players session (p # ps) ums =
     (if \<not> Player_Offline p
      then register_online_players session ps (ums(Player_UserID p \<mapsto> session))
      else register_online_players session ps ums)"

text \<open>The loop over the fetched states; \<open>Run\<close> is \<open>session.Run(m.ctxSess)\<close>.\<close>

fun restore_states ::
  "(match_session \<Rightarrow> 'w \<Rightarrow> 'w) \<Rightarrow> match_session \<Rightarrow> tg_handle \<Rightarrow> persisted_state list \<Rightarrow>
     call list \<times> ('cb, 'h) manager \<times> 'w \<Rightarrow> call list \<times> ('cb, 'h) manager \<times> 'w" where
  "restore_states Run fresh tg [] tmw = tmw"
| "restore_states Run fresh tg (state # states) (tr, m, w) =
     (let session = NewMatchSessionFromSerialized fresh state tg MatchDoneFn MatchWarnFn;
          w' = Run session w;
          m1 = m\<lparr> matchSessions := (matchSessions m)(Code (Config session) \<mapsto> session) \<rparr>;
          m2 = m1\<lparr> userMatchSessions :=
                     register_online_players session (Players session) (userMatchSessions m1) \<rparr>
      in restore_states Run fresh tg states (tr @ [Call_Run session], m2, w'))"

text \<open>The loop that drives every registered session into its state again.\<close>

fun move_states ::
  "(match_session \<Rightarrow> machine_state \<Rightarrow> 'w \<Rightarrow> 'w) \<Rightarrow> match_session list \<Rightarrow>
     call list \<times> 'w \<Rightarrow> call list \<times> 'w" where
  "move_states MoveState [] tw = tw"
| "move_states MoveState (session # sessions) (tr, w) =
     move_states MoveState sessions
       (tr @ [Call_MoveState session (State session)], MoveState session (State session) w)"

text \<open>
  \<open>restoreInterruptedGames\<close>. \<open>FetchAll\<close> and \<open>Clean\<close> are the methods of the state
  store; Go returns a slice and an error together, so \<open>FetchAll\<close> gives a pair. Go
  leaves the order of a \<open>range\<close> over a map open: \<open>ranged\<close> gives the sessions of the
  map in the order the loop visits them.
\<close>

definition restoreInterruptedGames ::
  "('w \<Rightarrow> (persisted_state list \<times> error option) \<times> 'w) \<Rightarrow> ('w \<Rightarrow> error option \<times> 'w) \<Rightarrow>
   (match_session \<Rightarrow> 'w \<Rightarrow> 'w) \<Rightarrow> (match_session \<Rightarrow> machine_state \<Rightarrow> 'w \<Rightarrow> 'w) \<Rightarrow>
   ((int64 \<rightharpoonup> match_session) \<Rightarrow> match_session list) \<Rightarrow> match_session \<Rightarrow> tg_handle \<Rightarrow>
     call list \<times> ('cb, 'h) manager \<times> 'w \<Rightarrow> error option \<times> call list \<times> ('cb, 'h) manager \<times> 'w" where
  "restoreInterruptedGames FetchAll Clean Run MoveState ranged fresh tg tmw =
     (case tmw of (tr, m, w) \<Rightarrow>
      (case FetchAll w of ((states, err), w1) \<Rightarrow>
        (let tr1 = tr @ [Call_StateDb_FetchAll];
             fetch_failed = (case err of None \<Rightarrow> False
                             | Some e \<Rightarrow> \<not> errors_Is e StateDb_ErrEntryNotFound)
         in if fetch_failed
            then (map_option (Errorf ''stat db fetch all'') err, tr1, m, w1)
            else
              (case restore_states Run fresh tg states (tr1, m, w1) of (tr2, m2, w2) \<Rightarrow>
               (case move_states MoveState (ranged (matchSessions m2)) (tr2, w2) of (tr3, w3) \<Rightarrow>
                  if length states > 0
                  then (case Clean w3 of
                          (Some e, w4) \<Rightarrow>
                            if \<not> errors_Is e StateDb_ErrBucketNotFound
                            then (Some (Errorf ''state db clean'' e), tr3 @ [Call_StateDb_Clean], m2, w4)
                            else (None, tr3 @ [Call_StateDb_Clean], m2, w4)
                        | (None, w4) \<Rightarrow> (None, tr3 @ [Call_StateDb_Clean], m2, w4))
                  else (None, tr3, m2, w3))))))"

subsection \<open>Statistics\<close>

text \<open>
  \<open>statModel.Stat\<close>, with the fields \<open>appendStat\<close> writes, and a score of
  \<open>session.Favorites()\<close>. The conclusion is the one \<open>NewStat\<close> gives or
  \<open>statModel.StatusFavorite\<close>.
\<close>

datatype conclusion = StatusInitial | StatusFavorite

record stat =
  Stat_UserID :: int64
  Stat_Conclusion :: conclusion
  Stat_Categories :: "string list"
  Stat_RoundsNum :: go_int
  Stat_PlayersNum :: go_int
  Stat_Bloops :: "string list"
  SumPoints :: go_int
  BestPoints :: go_int
  WorstPoints :: go_int
  AveragePoints :: go_int
  BestDuration :: duration
  WorstDuration :: duration
  AverageDuration :: duration
  SumDuration :: duration

record score =
  Score_Player :: player

text \<open>
  Modelled from the spec: \<open>statModel.NewStat\<close> is not among the sources. It gives the
  record of the user with every other field at its zero value (the specification has
  the average stay "at its zero value" when no round counts).
\<close>

definition NewStat :: "int64 \<Rightarrow> stat" where
  "NewStat userID =
     \<lparr> Stat_UserID = userID, Stat_Conclusion = StatusInitial, Stat_Categories = [],
       Stat_RoundsNum = 0, Stat_PlayersNum = 0, Stat_Bloops = [],
       SumPoints = 0, BestPoints = 0, WorstPoints = 0, AveragePoints = 0,
       BestDuration = 0, WorstDuration = 0, AverageDuration = 0, SumDuration = 0 \<rparr>"

text \<open>The local variables of the fold over a player's rates, with the collected bonus tasks.\<close>

record fold_vars =
  bestDuration :: duration
  worstDuration :: duration
  sumDuration :: duration
  durationNum :: duration
  bestPoints :: go_int
  worstPoints :: go_int
  sumPoints :: go_int
  pointsNum :: go_int
  bloopsNames :: "string list"

text \<open>The \<open>var ( ... )\<close> block: \<open>2 << 31\<close>, \<open>2 << 28\<close> and zeros.\<close>

definition initial_vars :: "string list \<Rightarrow> fold_vars" where
  "initial_vars names =
     \<lparr> bestDuration = push_bit 31 2, worstDuration = 0, sumDuration = 0, durationNum = 0,
       bestPoints = 0, worstPoints = push_bit 28 2, sumPoints = 0, pointsNum = 0,
       bloopsNames = names \<rparr>"

definition rate_step :: "rate \<Rightarrow> fold_vars \<Rightarrow> fold_vars" where
  "rate_step r v =
     (let v1 = (if \<not> Rate_Bloops r
                then (let a = v\<lparr> durationNum := durationNum v + 1 \<rparr>;
                          b = (if Rate_Duration r <s bestDuration a
                               then a\<lparr> bestDuration := Rate_Duration r \<rparr> else a);
                          c = (if worstDuration b <s Rate_Duration r
                               then b\<lparr> worstDuration := Rate_Duration r \<rparr> else b)
                      in c\<lparr> sumDuration := sumDuration c + Rate_Duration r \<rparr>)
                else v\<lparr> bloopsNames := bloopsNames v @ [Rate_BloopsName r] \<rparr>);
          v2 = v1\<lparr> pointsNum := pointsNum v1 + 1 \<rparr>;
          v3 = (if bestPoints v2 <s Rate_Points r then v2\<lparr> bestPoints := Rate_Points r \<rparr> else v2);
          v4 = (if Rate_Points r <s worstPoints v3 then v3\<lparr> worstPoints := Rate_Points r \<rparr> else v3)
      in v4\<lparr> sumPoints := sumPoints v4 + Rate_Points r \<rparr>)"

text \<open>The loop over \<open>player.Rates\<close>.\<close>

fun fold_rates :: "rate list \<Rightarrow> fold_vars \<Rightarrow> fold_vars" where
  "fold_rates [] v = v"
| "fold_rates (r # rs) v = fold_rates rs (rate_step r v)"

text \<open>The loop over the favorites: a match of the user's identity tags the record.\<close>

fun tag_favorite :: "score list \<Rightarrow> player \<Rightarrow> stat \<Rightarrow> stat" where
  "tag_favorite [] p st = st"
| "tag_favorite (sc # scs) p st =
     tag_favorite scs p
       (if Player_UserID p = Player_UserID (Score_Player sc)
        then st\<lparr> Stat_Conclusion := StatusFavorite \<rparr> else st)"

text \<open>The body of the loop over the players, for an online player.\<close>

definition player_stat :: "score list \<Rightarrow> match_session \<Rightarrow> player \<Rightarrow> stat" where
  "player_stat favorites session p =
     (let st0 = NewStat (Player_UserID p);
          st1 = tag_favorite favorites p st0;
          st2 = st1\<lparr> Stat_Categories := clone (Categories (Config session)) \<rparr>;
          st3 = st2\<lparr> Stat_RoundsNum := RoundsNum (Config session),
                     Stat_PlayersNum := of_nat (length (Players session)) \<rparr>;
          v = fold_rates (Player_Rates p) (initial_vars (Stat_Bloops st3));
          st4 = st3\<lparr> Stat_Bloops := bloopsNames v,
                     SumPoints := sumPoints v,
                     BestPoints := bestPoints v,
                     WorstPoints := worstPoints v \<rparr>;
          st5 = (if 0 <s pointsNum v
                 then st4\<lparr> AveragePoints := go_div (sumPoints v) (pointsNum v) \<rparr> else st4);
          st6 = st5\<lparr> BestDuration := bestDuration v, WorstDuration := worstDuration v \<rparr>;
          st7 = (if 0 <s durationNum v
                 then st6\<lparr> AverageDuration := go_div (sumDuration v) (durationNum v) \<rparr> else st6)
      in st7\<lparr> SumDuration := sumDuration v \<rparr>)"

fun collect_stats :: "score list \<Rightarrow> match_session \<Rightarrow> player list \<Rightarrow> stat list \<Rightarrow> stat list" where
  "collect_stats favorites session [] stats = stats"
| "collect_stats favorites session (p # ps) stats =
     (if Player_Offline p then collect_stats favorites session ps stats
      else collect_stats favorites session ps (stats @ [player_stat favorites session p]))"

text \<open>The loop that writes the records; \<open>statDB_Add\<close> is \<open>m.statDB.Add\<close>.\<close>

fun add_stats :: "(stat \<Rightarrow> 'w \<Rightarrow> error option \<times> 'w) \<Rightarrow> stat list \<Rightarrow> 'w \<Rightarrow> error option \<times> 'w" where
  "add_stats statDB_Add [] w = (None, w)"
| "add_stats statDB_Add (st # sts) w =
     (case statDB_Add st w of
        (Some err, w') \<Rightarrow> (Some (Errorf ''stat db add'' err), w')
      | (None, w') \<Rightarrow> add_stats statDB_Add sts w')"

text \<open>\<open>appendStat\<close>; \<open>Favorites\<close> is \<open>session.Favorites()\<close>.\<close>

definition appendStat ::
  "(match_session \<Rightarrow> score list) \<Rightarrow> (stat \<Rightarrow> 'w \<Rightarrow> error option \<times> 'w) \<Rightarrow>
     match_session \<Rightarrow> 'w \<Rightarrow> error option \<times> 'w" where
  "appendStat Favorites statDB_Add session w =
     add_stats statDB_Add (collect_stats (Favorites session) session (Players session) []) w"

subsection \<open>Ending a match\<close>

text \<open>The loop that removes the match membership of every player of the session.\<close>

fun delete_players :: "player list \<Rightarrow> (int64 \<rightharpoonup> match_session) \<Rightarrow> (int64 \<rightharpoonup> match_session)" where
  "delete_players [] ums = ums"
| "delete_players (p # ps) ums = delete_players ps (delete ums (Player_UserID p))"

definition unregister_match :: "match_session \<Rightarrow> ('cb, 'h) manager \<Rightarrow> ('cb, 'h) manager" where
  "unregister_match session m =
     m\<lparr> userMatchSessions := delete_players (Players session) (userMatchSessions m),
        matchSessions := delete (matchSessions m) (Code (Config session)) \<rparr>"

definition matchWarnFn ::
  "(persisted_state \<Rightarrow> 'w \<Rightarrow> error option \<times> 'w) \<Rightarrow> match_session \<Rightarrow>
     ('cb, 'h) manager \<times> 'w \<Rightarrow> error option \<times> ('cb, 'h) manager \<times> 'w" where
  "matchWarnFn stateDB_Add session mw =
     (case mw of (m, w) \<Rightarrow>
        (case serializeGames stateDB_Add session w of
           (Some err, w') \<Rightarrow> (Some (Errorf ''serializeGames match session'' err), m, w')
         | (None, w') \<Rightarrow> (None, unregister_match session m, w')))"

definition matchDoneFn ::
  "(match_session \<Rightarrow> score list) \<Rightarrow> (stat \<Rightarrow> 'w \<Rightarrow> error option \<times> 'w) \<Rightarrow> match_session \<Rightarrow>
     ('cb, 'h) manager \<times> 'w \<Rightarrow> error option \<times> ('cb, 'h) manager \<times> 'w" where
  "matchDoneFn Favorites statDB_Add session mw =
     (case mw of (m, w) \<Rightarrow>
        (case appendStat Favorites statDB_Add session w of
           (Some err, w') \<Rightarrow> (Some (Errorf ''append stat'' err), m, w')
         | (None, w') \<Rightarrow> (None, unregister_match session m, w')))"

subsection \<open>Creating a match from a completed wizard\<close>

text \<open>The loops of \<open>buildGameConfig\<close>: the texts of the entries whose status is set, in order.\<close>

fun selected :: "choice list \<Rightarrow> string list \<Rightarrow> string list" where
  "selected [] acc = acc"
| "selected (c # cs) acc = selected cs (if Status c then acc @ [Text c] else acc)"

text \<open>
  \<open>buildGameConfig\<close>; \<open>playingTimeout\<close> is \<open>m.config.PlayingTimeout\<close>, \<open>tg\<close> is \<open>m.tg\<close>
  and \<open>catalogue\<close> is \<open>resource.Bloopses\<close>.
\<close>

definition buildGameConfig ::
  "duration \<Rightarrow> tg_handle \<Rightarrow> bloops list \<Rightarrow> builder_session \<Rightarrow> int64 \<Rightarrow> config" where
  "buildGameConfig playingTimeout tg catalogue session code =
     \<lparr> Timeout = playingTimeout,
       Code = code,
       Tg = tg,
       DoneFn = MatchDoneFn,
       WarnFn = MatchWarnFn,
       AuthorID = B_AuthorID session,
       AuthorName = B_AuthorName session,
       RoundsNum = B_RoundsNum session,
       RoundTime = B_RoundTime session,
       Bloopses = (if B_Bloops session then clone catalogue else []),
       Categories = selected (B_Categories session) [],
       Letters = selected (B_Letters session) [],
       Vote = B_Vote session \<rparr>"

definition builderWarnFn :: "builder_session \<Rightarrow> ('cb, 'h) manager \<Rightarrow> error option \<times> ('cb, 'h) manager" where
  "builderWarnFn session m =
     (None, m\<lparr> userBuildingSessions := delete (userBuildingSessions m) (B_AuthorID session) \<rparr>)"

text \<open>
  The \<open>for\<close> loop of \<open>builderDoneFn\<close>. The code is computed once, before the loop; an
  iteration that finds the code registered changes nothing and the loop goes round
  again. A loop that does not return has the value \<open>None\<close>.
\<close>

partial_function (option) probe_loop ::
  "(match_session \<Rightarrow> 'w \<Rightarrow> 'w) \<Rightarrow> match_session \<Rightarrow> duration \<Rightarrow> tg_handle \<Rightarrow> bloops list \<Rightarrow>
     builder_session \<Rightarrow> int64 \<Rightarrow> ('cb, 'h) manager \<times> 'w \<Rightarrow> (('cb, 'h) manager \<times> 'w) option" where
  "probe_loop Run fresh playingTimeout tg catalogue bsession code mw =
     (case fst (matchSession (fst mw) code) of
        None \<Rightarrow>
          (let session = NewSession fresh (buildGameConfig playingTimeout tg catalogue bsession code);
               w' = Run session (snd mw)
           in Some ((fst mw)\<lparr> matchSessions := (matchSessions (fst mw))(code \<mapsto> session) \<rparr>, w'))
      | Some registered \<Rightarrow>
          probe_loop Run fresh playingTimeout tg catalogue bsession code mw)"

text \<open>What \<open>builderDoneFn\<close> sends to the author's chat.\<close>

datatype chattable =
    CreationCompletedMessage int64
  | StickerShare int64
  | CodeMessage int64 int64

text \<open>The three sends that follow the loop.\<close>

definition notify_author ::
  "(chattable \<Rightarrow> 'w \<Rightarrow> error option \<times> 'w) \<Rightarrow> builder_session \<Rightarrow> int64 \<Rightarrow> 'w \<Rightarrow> error option \<times> 'w" where
  "notify_author Send session code w =
     (case Send (CreationCompletedMessage (B_ChatID session)) w of
        (Some err, w1) \<Rightarrow> (Some (Errorf ''send msg'' err), w1)
      | (None, w1) \<Rightarrow>
         (case Send (StickerShare (B_ChatID session)) w1 of
            (Some err, w2) \<Rightarrow> (Some (Errorf ''send msg'' err), w2)
          | (None, w2) \<Rightarrow>
             (case Send (CodeMessage (B_ChatID session) code) w2 of
                (Some err, w3) \<Rightarrow> (Some (Errorf ''send msg'' err), w3)
              | (None, w3) \<Rightarrow> (None, w3))))"

text \<open>
  \<open>builderDoneFn\<close>. \<open>GenerateCodeHash\<close> is \<open>util.GenerateCodeHash\<close>. The deferred
  function removes the author's wizard session on every return; \<open>None\<close> is a call
  that does not return.
\<close>

definition builderDoneFn ::
  "('w \<Rightarrow> (int64 \<times> error option) \<times> 'w) \<Rightarrow> (match_session \<Rightarrow> 'w \<Rightarrow> 'w) \<Rightarrow>
   (chattable \<Rightarrow> 'w \<Rightarrow> error option \<times> 'w) \<Rightarrow> match_session \<Rightarrow> duration \<Rightarrow> tg_handle \<Rightarrow>
   bloops list \<Rightarrow> builder_session \<Rightarrow> ('cb, 'h) manager \<times> 'w \<Rightarrow>
     (error option \<times> ('cb, 'h) manager \<times> 'w) option" where
  "builderDoneFn GenerateCodeHash Run Send fresh playingTimeout tg catalogue session mw =
     (case mw of (m, w) \<Rightarrow>
      (case GenerateCodeHash w of
         ((code, Some err), w1) \<Rightarrow>
           Some (Some (Errorf ''hash'' err),
                 m\<lparr> userBuildingSessions := delete (userBuildingSessions m) (B_AuthorID session) \<rparr>, w1)
       | ((code, None), w1) \<Rightarrow>
          (case probe_loop Run fresh playingTimeout tg catalogue session code (m, w1) of
             None \<Rightarrow> None
           | Some (m2, w2) \<Rightarrow>
              (case notify_author Send session code w2 of (r, w3) \<Rightarrow>
                 Some (r, m2\<lparr> userBuildingSessions :=
                               delete (userBuildingSessions m2) (B_AuthorID session) \<rparr>, w3)))))"

subsection \<open>Resolving the sender\<close>

text \<open>\<open>strings.TrimPrefix\<close>.\<close>

definition TrimPrefix :: "string \<Rightarrow> string \<Rightarrow> string" where
  "TrimPrefix s pre = (if take (length pre) s = pre then drop (length pre) s else s)"

text \<open>The rating that \<open>statDB.FetchRateStat\<close> returns.\<close>

record rate_stat =
  RS_Stars :: go_int
  RS_Bloops :: go_int

text \<open>
  \<open>recvUser\<close>. \<open>Fetch\<close> and \<open>Store\<close> are the methods of the user store and
  \<open>FetchRateStat\<close> that of the stat store; each returns its value and its error
  together, as in Go. \<open>admin\<close> is \<open>m.config.Admin\<close>, \<open>statusActive\<close> is
  \<open>userModel.StatusActive\<close> and \<open>now\<close> reads the clock.
\<close>

definition recvUser ::
  "(int64 \<Rightarrow> 'w \<Rightarrow> (user \<times> error option) \<times> 'w) \<Rightarrow> (user \<Rightarrow> 'w \<Rightarrow> error option \<times> 'w) \<Rightarrow>
   (int64 \<Rightarrow> 'w \<Rightarrow> (rate_stat \<times> error option) \<times> 'w) \<Rightarrow> string \<Rightarrow> nat \<Rightarrow> ('w \<Rightarrow> int64) \<Rightarrow>
   update \<Rightarrow> 'w \<Rightarrow> ((user \<times> error option) \<times> 'w) outcome" where
  "recvUser Fetch Store FetchRateStat admin statusActive now upd w =
     (let sender = (case Upd_CallbackQuery upd of
                      Some q \<Rightarrow> Some (Cq_From q)
                    | None \<Rightarrow> (case Upd_Message upd of
                                 Some msg \<Rightarrow> Some (Msg_From msg)
                               | None \<Rightarrow> None))
      in case sender of
           None \<Rightarrow> Return ((zero_User, Some ErrTelegramResponseTypeNotFound), w)
         | Some None \<Rightarrow> NilDeref
         | Some (Some tgUser) \<Rightarrow>
            (case Fetch (Tg_ID tgUser) w of ((fetched, err), w1) \<Rightarrow>
              (let created =
                 (case err of
                    None \<Rightarrow> ((fetched, None), w1)
                  | Some e \<Rightarrow>
                     if errors_Is e UserDb_ErrNotFound
                     then (let username = TrimPrefix (Tg_UserName tgUser) ''@'';
                               newUser = \<lparr> U_ID = Tg_ID tgUser,
                                           U_FirstName = Tg_FirstName tgUser,
                                           U_LastName = Tg_LastName tgUser,
                                           U_LanguageCode = Tg_LanguageCode tgUser,
                                           U_Username = Tg_UserName tgUser,
                                           U_Admin = (username = admin),
                                           U_Status = statusActive,
                                           U_CreatedAt = now w1,
                                           U_Stars = 0,
                                           U_Bloops = 0 \<rparr>
                           in case Store newUser w1 of
                                (Some serr, w2) \<Rightarrow> ((fetched, Some (Errorf ''userdb store'' serr)), w2)
                              | (None, w2) \<Rightarrow> ((newUser, None), w2))
                     else ((fetched, None), w1))
               in case created of
                    ((u, Some serr), w2) \<Rightarrow> Return ((u, Some serr), w2)
                  | ((u, None), w2) \<Rightarrow>
                     (case FetchRateStat (U_ID u) w2 of
                        ((st, Some rerr), w3) \<Rightarrow>
                          if errors_Is rerr StatDb_ErrNotFound then Return ((u, None), w3)
                          else Return ((u, Some (Errorf ''fetch profile stat'' rerr)), w3)
                      | ((st, None), w3) \<Rightarrow>
                          Return ((u\<lparr> U_Stars := RS_Stars st, U_Bloops := RS_Bloops st \<rparr>, None), w3)))))"

text \<open>A returned error that is \<open>nil\<close> or is the given sentinel.\<close>

definition nil_or :: "error \<Rightarrow> error option \<Rightarrow> bool" where
  "nil_or sentinel r = (case r of None \<Rightarrow> True | Some e \<Rightarrow> errors_Is e sentinel)"

subsection \<open>Concrete inputs\<close>

text \<open>
  A player with the two rounds of the statistics scenario: ten seconds and five points
  without a bonus task, then three points on the bonus task \<open>X\<close>.
\<close>

definition scenario_rates :: "rate list" where
  "scenario_rates =
     [\<lparr> Rate_Duration = 10 * Second, Rate_Points = 5, Rate_Bloops = False, Rate_BloopsName = [] \<rparr>,
      \<lparr> Rate_Duration = 0, Rate_Points = 3, Rate_Bloops = True, Rate_BloopsName = ''X'' \<rparr>]"

definition scenario_player :: player where
  "scenario_player = \<lparr> Player_UserID = 7, Player_Offline = False, Player_Rates = scenario_rates \<rparr>"

text \<open>A match under the join code 42 with that player, created by user 7.\<close>

definition example_config :: config where
  "example_config =
     \<lparr> Timeout = 120 * Second, Code = 42, Tg = 0, DoneFn = MatchDoneFn, WarnFn = MatchWarnFn,
       AuthorID = 7, AuthorName = ''ann'', RoundsNum = 2, RoundTime = 30,
       Bloopses = [''X''], Categories = [''city''], Letters = [''a''], Vote = True \<rparr>"

definition example_session :: match_session where
  "example_session =
     \<lparr> Config = example_config, State = 3, CurrRoundIdx = 1, CreatedAt = 1000,
       Players = [scenario_player] \<rparr>"

text \<open>The values of a session the engine has just constructed.\<close>

definition fresh_session :: match_session where
  "fresh_session =
     \<lparr> Config = example_config\<lparr> Code := 0 \<rparr>, State = 0, CurrRoundIdx = 0, CreatedAt = 2000,
       Players = [] \<rparr>"

text \<open>A completed wizard of user 7.\<close>

definition example_wizard :: builder_session where
  "example_wizard =
     \<lparr> B_AuthorID = 7, B_AuthorName = ''ann'', B_ChatID = 70, B_RoundsNum = 2, B_RoundTime = 30,
       B_Categories = [\<lparr> Text = ''city'', Status = True \<rparr>, \<lparr> Text = ''river'', Status = False \<rparr>],
       B_Letters = [\<lparr> Text = ''a'', Status = True \<rparr>], B_Vote = True, B_Bloops = False \<rparr>"

text \<open>
  A registry in which user 7 has a wizard session and is a player of the match 42, and
  user 8 has a pending one-shot callback.
\<close>

definition example_manager :: "(nat, nat) manager" where
  "example_manager =
     \<lparr> userBuildingSessions = [7 \<mapsto> example_wizard],
       userMatchSessions = [7 \<mapsto> example_session],
       matchSessions = [42 \<mapsto> example_session],
       commandCbHandlers = [8 \<mapsto> 1],
       commandHandlers = Map.empty \<rparr>"

definition example_user :: user where
  "example_user = zero_User\<lparr> U_ID := 7, U_FirstName := ''ann'', U_Status := 1 \<rparr>"

definition example_tg_user :: tg_user where
  "example_tg_user =
     \<lparr> Tg_ID = 7, Tg_FirstName = ''ann'', Tg_LastName = [], Tg_UserName = ''@ann'',
       Tg_LanguageCode = ''en'' \<rparr>"

definition example_message :: message where
  "example_message = \<lparr> Msg_From = Some example_tg_user, Msg_Text = ''hello'', Msg_ChatID = 70 \<rparr>"

text \<open>A button press of user 7, and a text message of user 7.\<close>

definition button_update :: update where
  "button_update =
     \<lparr> Upd_Message = None,
       Upd_CallbackQuery =
         Some \<lparr> Cq_From = Some example_tg_user, Cq_Message = Some example_message, Cq_Data = ''next'' \<rparr> \<rparr>"

definition text_update :: update where
  "text_update = \<lparr> Upd_Message = Some example_message, Upd_CallbackQuery = None \<rparr>"

text \<open>Engines that accept every event, and stores that fail or that keep what they are given.\<close>

definition accepting_builder :: "('cb, 'h, 'w) builder_execute" where
  "accepting_builder session upd s = (None, s)"

definition accepting_match :: "('cb, 'h, 'w) match_execute" where
  "accepting_match session userID upd s = (None, s)"

definition failing_store :: "'a \<Rightarrow> 'w \<Rightarrow> error option \<times> 'w" where
  "failing_store x w = (Some (OtherError ''disk full''), w)"

definition keeping_store :: "'a \<Rightarrow> 'a list \<Rightarrow> error option \<times> 'a list" where
  "keeping_store x w = (None, w @ [x])"

text \<open>
  Three command-table entries on a counter that the command body increments: the
  second predicate of the first fails, that of the second says "do not proceed", and
  both predicates of the third pass.
\<close>

definition counting_body :: "nat commandHandlerFunc" where
  "counting_body u chatID s = (None, s + 1)"

definition passing :: "nat commandMiddlewareFunc" where
  "passing u chatID s = ((True, None), s)"

definition refusing :: "nat commandMiddlewareFunc" where
  "refusing u chatID s = ((False, None), s)"

definition erring :: "nat commandMiddlewareFunc" where
  "erring u chatID s = ((True, Some (OtherError ''store down'')), s)"

definition aborted_entry :: "nat command_handler" where
  "aborted_entry = \<lparr> commandFn = counting_body, middlewareFn = [passing, erring] \<rparr>"

definition dropped_entry :: "nat command_handler" where
  "dropped_entry = \<lparr> commandFn = counting_body, middlewareFn = [passing, refusing] \<rparr>"

definition passed_entry :: "nat command_handler" where
  "passed_entry = \<lparr> commandFn = counting_body, middlewareFn = [passing, passing] \<rparr>"

text \<open>
  A state store with nothing in it, a state store that holds the snapshot of the example
  match, a clear that finds no bucket, an engine whose calls leave the world as it is,
  and the sessions of a registry that has at most the match 42.
\<close>

definition empty_state_store :: "unit \<Rightarrow> (persisted_state list \<times> error option) \<times> unit" where
  "empty_state_store w = (([], Some StateDb_ErrEntryNotFound), w)"

definition one_snapshot_store :: "unit \<Rightarrow> (persisted_state list \<times> error option) \<times> unit" where
  "one_snapshot_store w = (([serialized example_session], None), w)"

definition missing_bucket :: "unit \<Rightarrow> error option \<times> unit" where
  "missing_bucket w = (Some StateDb_ErrBucketNotFound, w)"

definition idle_Run :: "match_session \<Rightarrow> unit \<Rightarrow> unit" where
  "idle_Run session w = w"

definition idle_MoveState :: "match_session \<Rightarrow> machine_state \<Rightarrow> unit \<Rightarrow> unit" where
  "idle_MoveState session st w = w"

definition sessions_of_42 :: "(int64 \<rightharpoonup> match_session) \<Rightarrow> match_session list" where
  "sessions_of_42 ms = (case ms 42 of None \<Rightarrow> [] | Some session \<Rightarrow> [session])"

text \<open>
  A match under the join code 42 with two online players, users 7 and 9, a registry
  that holds it with both memberships, and a stat store on a counter of the records
  written that takes the first record and fails on the second.
\<close>

definition second_player :: player where
  "second_player = \<lparr> Player_UserID = 9, Player_Offline = False, Player_Rates = [] \<rparr>"

definition two_player_session :: match_session where
  "two_player_session = example_session\<lparr> Players := [scenario_player, second_player] \<rparr>"

definition two_player_manager :: "(nat, nat) manager" where
  "two_player_manager =
     \<lparr> userBuildingSessions = Map.empty,
       userMatchSessions = [7 \<mapsto> two_player_session, 9 \<mapsto> two_player_session],
       matchSessions = [42 \<mapsto> two_player_session],
       commandCbHandlers = Map.empty,
       commandHandlers = Map.empty \<rparr>"

definition second_write_fails :: "stat \<Rightarrow> nat \<Rightarrow> error option \<times> nat" where
  "second_write_fails st written =
     (if written = 1 then (Some (OtherError ''disk full''), written) else (None, written + 1))"

section \<open>Properties\<close>

subsection \<open>Registry\<close>

text \<open>
  C4. For every user \<open>u\<close> and every registry, after \<open>resetUserSessions u\<close> the wizard
  lookup, the match-by-user lookup and the one-shot callback lookup for \<open>u\<close> all report
  not-found; the entries of every other user in these three maps are as before, and the
  match-by-code map and the command table are untouched.
\<close>

theorem resetUserSessions_clears_user:
  fixes m :: "('cb, 'h) manager"
  shows "fst (userBuildingSession (resetUserSessions m u) u) = None
       \<and> fst (userMatchSession (resetUserSessions m u) u) = None
       \<and> fst (commandCbHandler (resetUserSessions m u) u) = None
       \<and> (\<forall>v. v \<noteq> u \<longrightarrow>
            fst (userBuildingSession (resetUserSessions m u) v) = fst (userBuildingSession m v)
          \<and> fst (userMatchSession (resetUserSessions m u) v) = fst (userMatchSession m v)
          \<and> fst (commandCbHandler (resetUserSessions m u) v) = fst (commandCbHandler m v))
       \<and> matchSessions (resetUserSessions m u) = matchSessions m
       \<and> commandHandlers (resetUserSessions m u) = commandHandlers m"
  by (simp add: resetUserSessions_def userBuildingSession_def userMatchSession_def
      commandCbHandler_def delete_def)

theorem resetUserSessions_clears_user_witness:
  "(8 :: int64) \<noteq> 7
   \<and> fst (userBuildingSession (resetUserSessions example_manager 7) 7) = None
   \<and> fst (userMatchSession (resetUserSessions example_manager 7) 7) = None
   \<and> fst (commandCbHandler (resetUserSessions example_manager 7) 8) = Some 1"
  using resetUserSessions_clears_user [of example_manager 7]
  by (simp add: example_manager_def commandCbHandler_def)

text \<open>
  C8. When a one-shot callback is registered for a user, the lookup returns it and
  leaves the registry as it was: every map is unchanged, the callback is still
  registered, and a second lookup returns it again.
\<close>

theorem commandCbHandler_not_consumed:
  fixes m :: "('cb, 'h) manager"
  assumes "commandCbHandlers m u = Some cb"
  shows "commandCbHandler m u = (Some cb, m)
       \<and> commandCbHandler (snd (commandCbHandler m u)) u = (Some cb, m)"
  using assms by (simp add: commandCbHandler_def)

theorem commandCbHandler_not_consumed_witness:
  "commandCbHandlers example_manager 8 = Some 1
   \<and> commandCbHandler example_manager 8 = (Some 1, example_manager)
   \<and> commandCbHandler (snd (commandCbHandler example_manager 8)) 8 = (Some 1, example_manager)"
  using commandCbHandler_not_consumed [of example_manager 8 1]
  by (simp add: example_manager_def)

subsection \<open>Recovery round trip\<close>

lemma clone_id: "clone xs = xs"
  by (simp add: clone_def map_nth)

text \<open>
  C3. For every match session \<open>s\<close>, the session reconstructed from the state that
  \<open>serializeGames\<close> builds from \<open>s\<close> has the configuration fields of \<open>s\<close> (author
  identity, rounds number, round time, timeout, vote flag, code, categories, letters,
  bonus-task pool), its current round index, its machine state and its player list.
\<close>

theorem serialize_restore_identity:
  "AuthorID (Config (NewMatchSessionFromSerialized fresh (serialized s) tg doneFn warnFn)) = AuthorID (Config s)
 \<and> AuthorName (Config (NewMatchSessionFromSerialized fresh (serialized s) tg doneFn warnFn)) = AuthorName (Config s)
 \<and> RoundsNum (Config (NewMatchSessionFromSerialized fresh (serialized s) tg doneFn warnFn)) = RoundsNum (Config s)
 \<and> RoundTime (Config (NewMatchSessionFromSerialized fresh (serialized s) tg doneFn warnFn)) = RoundTime (Config s)
 \<and> Timeout (Config (NewMatchSessionFromSerialized fresh (serialized s) tg doneFn warnFn)) = Timeout (Config s)
 \<and> Vote (Config (NewMatchSessionFromSerialized fresh (serialized s) tg doneFn warnFn)) = Vote (Config s)
 \<and> Code (Config (NewMatchSessionFromSerialized fresh (serialized s) tg doneFn warnFn)) = Code (Config s)
 \<and> Categories (Config (NewMatchSessionFromSerialized fresh (serialized s) tg doneFn warnFn)) = Categories (Config s)
 \<and> Letters (Config (NewMatchSessionFromSerialized fresh (serialized s) tg doneFn warnFn)) = Letters (Config s)
 \<and> Bloopses (Config (NewMatchSessionFromSerialized fresh (serialized s) tg doneFn warnFn)) = Bloopses (Config s)
 \<and> CurrRoundIdx (NewMatchSessionFromSerialized fresh (serialized s) tg doneFn warnFn) = CurrRoundIdx s
 \<and> State (NewMatchSessionFromSerialized fresh (serialized s) tg doneFn warnFn) = State s
 \<and> Players (NewMatchSessionFromSerialized fresh (serialized s) tg doneFn warnFn) = Players s"
  by (simp add: NewMatchSessionFromSerialized_def serialized_def NewSession_def clone_id Let_def)

subsection \<open>Ending a match\<close>

text \<open>
  The loop that writes the records stops at the first write that fails, after the
  writes before it have succeeded, and returns that error; \<open>ws\<close> lists the worlds the
  writes go through.
\<close>

lemma add_stats_first_failure:
  assumes "i < length sts" and "length ws = Suc i" and "ws ! 0 = w"
    and "\<forall>j<i. statDB_Add (sts ! j) (ws ! j) = (None, ws ! Suc j)"
    and "statDB_Add (sts ! i) (ws ! i) = (Some e, w')"
  shows "add_stats statDB_Add sts w = (Some (Errorf ''stat db add'' e), w')"
  using assms
proof (induction sts arbitrary: i ws w)
  case Nil
  then show ?case by simp
next
  case (Cons st sts)
  show ?case
  proof (cases i)
    case 0
    with Cons.prems show ?thesis by simp
  next
    case (Suc k)
    from Cons.prems(4) Suc have first: "statDB_Add st w = (None, ws ! 1)"
      using Cons.prems(3) by force
    have len: "length (tl ws) = Suc k"
      using Cons.prems(2) Suc by simp
    have nth: "tl ws ! n = ws ! Suc n" if "n \<le> k" for n
      using that len by (simp add: nth_tl)
    have k: "k < length sts"
      using Cons.prems(1) Suc by simp
    have before: "\<forall>j<k. statDB_Add (sts ! j) (tl ws ! j) = (None, tl ws ! Suc j)"
    proof (intro allI impI)
      fix j assume j: "j < k"
      then have "Suc j < i" using Suc by simp
      with Cons.prems(4) have "statDB_Add ((st # sts) ! Suc j) (ws ! Suc j) = (None, ws ! Suc (Suc j))"
        by blast
      with j show "statDB_Add (sts ! j) (tl ws ! j) = (None, tl ws ! Suc j)"
        by (simp add: nth)
    qed
    have failing: "statDB_Add (sts ! k) (tl ws ! k) = (Some e, w')"
      using Cons.prems(5) Suc by (simp add: nth)
    have "add_stats statDB_Add sts (ws ! 1) = (Some (Errorf ''stat db add'' e), w')"
      using Cons.IH [OF k len _ before failing] nth [of 0] by simp
    with first show ?thesis by simp
  qed
qed

text \<open>
  C10. If the state store's write fails on the interruption path, \<open>matchWarnFn\<close>
  returns an error and the registry is as before the call. If, on the completion path,
  the stat store's write of one of the records of the online players fails after the
  writes of the records before it have succeeded, \<open>matchDoneFn\<close> returns that error
  and the registry is as before the call. In both cases the match and the match
  membership of its players stay registered.
\<close>

theorem termination_keeps_registry_on_failure:
  fixes m :: "('cb, 'h) manager"
  shows "(stateDB_Add (serialized session) w = (Some err, w') \<longrightarrow>
            matchWarnFn stateDB_Add session (m, w)
              = (Some (Errorf ''serializeGames match session'' (Errorf ''state db add'' err)), m, w'))
       \<and> (i < length (collect_stats (Favorites session) session (Players session) [])
            \<and> length ws = Suc i \<and> ws ! 0 = w
            \<and> (\<forall>j<i. statDB_Add (collect_stats (Favorites session) session (Players session) [] ! j)
                         (ws ! j) = (None, ws ! Suc j))
            \<and> statDB_Add (collect_stats (Favorites session) session (Players session) [] ! i) (ws ! i)
                 = (Some err2, w2) \<longrightarrow>
            matchDoneFn Favorites statDB_Add session (m, w)
              = (Some (Errorf ''append stat'' (Errorf ''stat db add'' err2)), m, w2))"
proof (intro conjI impI)
  assume "stateDB_Add (serialized session) w = (Some err, w')"
  then show "matchWarnFn stateDB_Add session (m, w)
      = (Some (Errorf ''serializeGames match session'' (Errorf ''state db add'' err)), m, w')"
    by (simp add: matchWarnFn_def serializeGames_def)
next
  let ?stats = "collect_stats (Favorites session) session (Players session) []"
  assume h: "i < length ?stats \<and> length ws = Suc i \<and> ws ! 0 = w
      \<and> (\<forall>j<i. statDB_Add (?stats ! j) (ws ! j) = (None, ws ! Suc j))
      \<and> statDB_Add (?stats ! i) (ws ! i) = (Some err2, w2)"
  then have "add_stats statDB_Add ?stats w = (Some (Errorf ''stat db add'' err2), w2)"
    by (intro add_stats_first_failure [where i = i and ws = ws]) simp_all
  then show "matchDoneFn Favorites statDB_Add session (m, w)
      = (Some (Errorf ''append stat'' (Errorf ''stat db add'' err2)), m, w2)"
    by (simp add: matchDoneFn_def appendStat_def)
qed

theorem termination_keeps_registry_on_failure_witness:
  "failing_store (serialized two_player_session) (0 :: nat) = (Some (OtherError ''disk full''), 0)
   \<and> matchWarnFn failing_store two_player_session (two_player_manager, 0 :: nat)
        = (Some (Errorf ''serializeGames match session'' (Errorf ''state db add'' (OtherError ''disk full''))),
           two_player_manager, 0)
   \<and> length (collect_stats [] two_player_session (Players two_player_session) []) = 2
   \<and> second_write_fails (collect_stats [] two_player_session (Players two_player_session) [] ! 0) 0
        = (None, 1)
   \<and> second_write_fails (collect_stats [] two_player_session (Players two_player_session) [] ! 1) 1
        = (Some (OtherError ''disk full''), 1)
   \<and> matchDoneFn (\<lambda>s. []) second_write_fails two_player_session (two_player_manager, 0)
        = (Some (Errorf ''append stat'' (Errorf ''stat db add'' (OtherError ''disk full''))),
           two_player_manager, 1)
   \<and> matchSessions two_player_manager 42 = Some two_player_session
   \<and> userMatchSessions two_player_manager 9 = Some two_player_session"
proof -
  have len: "length (collect_stats [] two_player_session (Players two_player_session) []) = 2"
    by (simp add: two_player_session_def scenario_player_def second_player_def)
  have w0: "second_write_fails (collect_stats [] two_player_session (Players two_player_session) [] ! 0) 0
        = (None, 1)"
    and w1: "second_write_fails (collect_stats [] two_player_session (Players two_player_session) [] ! 1) 1
        = (Some (OtherError ''disk full''), 1)"
    by (simp_all add: second_write_fails_def)
  have warn_fails: "failing_store (serialized two_player_session) (0 :: nat)
      = (Some (OtherError ''disk full''), 0)"
    by (simp add: failing_store_def)
  have before: "\<forall>j<1. second_write_fails
      (collect_stats [] two_player_session (Players two_player_session) [] ! j) ([0, 1] ! j)
        = (None, [0, 1] ! Suc j)"
    using w0 by simp
  have failing: "second_write_fails
      (collect_stats [] two_player_session (Players two_player_session) [] ! 1) ([0, 1] ! 1)
        = (Some (OtherError ''disk full''), 1)"
    using w1 by simp
  note inst = termination_keeps_registry_on_failure [where stateDB_Add = failing_store
      and session = two_player_session and w = "0 :: nat" and err = "OtherError ''disk full''"
      and w' = 0 and m = two_player_manager and Favorites = "\<lambda>s. []"
      and statDB_Add = second_write_fails and i = 1 and ws = "[0, 1]"
      and ?err2.0 = "OtherError ''disk full''" and ?w2.0 = 1]
  from inst warn_fails
  have warn: "matchWarnFn failing_store two_player_session (two_player_manager, 0 :: nat)
        = (Some (Errorf ''serializeGames match session'' (Errorf ''state db add'' (OtherError ''disk full''))),
           two_player_manager, 0)"
    by blast
  from inst len before failing
  have finished: "matchDoneFn (\<lambda>s. []) second_write_fails two_player_session (two_player_manager, 0)
        = (Some (Errorf ''append stat'' (Errorf ''stat db add'' (OtherError ''disk full''))),
           two_player_manager, 1)"
    by simp
  have registered: "matchSessions two_player_manager 42 = Some two_player_session
      \<and> userMatchSessions two_player_manager 9 = Some two_player_session"
    by (simp add: two_player_manager_def)
  from warn_fails warn len w0 w1 finished registered show ?thesis
    by blast
qed

subsection \<open>Statistics\<close>

text \<open>
  C2. The statistics scenario, evaluated: for the player whose rounds are ten seconds
  and five points without a bonus task, then three points on the bonus task \<open>X\<close>,
  \<open>appendStat\<close> writes one record with worst and average duration of ten seconds, sum 8,
  best 5, worst 3 and average 4 points and the bonus list \<open>[X]\<close>; its best duration is
  the initial value \<open>2 << 31\<close> (4294967296 nanoseconds), not ten seconds, because ten
  seconds is not below that initial value.
\<close>

theorem appendStat_scenario_best_duration:
  "appendStat (\<lambda>s. []) keeping_store example_session []
     = (None, [\<lparr> Stat_UserID = 7, Stat_Conclusion = StatusInitial, Stat_Categories = [''city''],
                 Stat_RoundsNum = 2, Stat_PlayersNum = 1, Stat_Bloops = [''X''],
                 SumPoints = 8, BestPoints = 5, WorstPoints = 3, AveragePoints = 4,
                 BestDuration = 4294967296, WorstDuration = 10 * Second,
                 AverageDuration = 10 * Second, SumDuration = 10 * Second \<rparr>])
   \<and> (4294967296 :: duration) \<noteq> 10 * Second"
  by (simp add: appendStat_def keeping_store_def example_session_def scenario_player_def
      scenario_rates_def player_stat_def initial_vars_def rate_step_def Let_def go_div_def
      Second_def word_sless_alt signed_divide_int_def example_config_def NewStat_def clone_id)

subsection \<open>Creating a match\<close>

text \<open>The loop returns only from a state in which the code is not registered.\<close>

lemma probe_loop_returns_only_free:
  assumes "probe_loop Run fresh playingTimeout tg catalogue bsession code mw = Some y"
  shows "matchSessions (fst mw) code = None"
  apply (rule probe_loop.raw_induct
    [where P = "\<lambda>R f p t c b cd s y. matchSessions (fst s) cd = None", OF _ assms])
  subgoal premises prems for g R f p t c b cd s z
  proof (cases "matchSessions (fst s) cd")
    case None
    then show ?thesis .
  next
    case (Some registered)
    with prems(2) have "g R f p t c b cd s = Some z"
      by (simp add: matchSession_def)
    from prems(1) [OF this] show ?thesis .
  qed
  done

lemma probe_loop_collision:
  assumes "matchSessions (fst mw) code = Some registered"
  shows "probe_loop Run fresh playingTimeout tg catalogue bsession code mw = None"
proof (cases "probe_loop Run fresh playingTimeout tg catalogue bsession code mw")
  case None
  then show ?thesis .
next
  case (Some y)
  from probe_loop_returns_only_free [OF this] assms show ?thesis by simp
qed

text \<open>When the loop returns, the match is registered under the code that was probed.\<close>

lemma probe_loop_registers_probed_code:
  assumes "probe_loop Run fresh playingTimeout tg catalogue bsession code mw = Some (m', w')"
  shows "matchSessions m'
       = (matchSessions (fst mw))
           (code \<mapsto> NewSession fresh (buildGameConfig playingTimeout tg catalogue bsession code))"
proof -
  have free: "matchSessions (fst mw) code = None"
    using probe_loop_returns_only_free [OF assms] .
  from assms show ?thesis
    by (subst (asm) probe_loop.simps) (auto simp: matchSession_def free Let_def)
qed

text \<open>
  C1. The collision scenario, evaluated: the match 42 is registered and the generated
  join code is 42. The loop probes the same code again and again, no second code is
  generated, and \<open>builderDoneFn\<close> does not return: no match is registered under a
  second code.
\<close>

theorem builderDoneFn_collision_never_returns:
  "fst (matchSession example_manager 42) = Some example_session
   \<and> builderDoneFn (\<lambda>w. ((42, None), w)) (\<lambda>session w. w) (\<lambda>c w. (None, w))
        fresh_session (120 * Second) 0 [''X''] example_wizard (example_manager, ()) = None"
proof -
  have "matchSessions (fst (example_manager, ())) 42 = Some example_session"
    by (simp add: example_manager_def)
  from probe_loop_collision [OF this]
  show ?thesis
    by (simp add: builderDoneFn_def matchSession_def example_manager_def)
qed

subsection \<open>Dispatch of button events\<close>

text \<open>
  C5. A button press of a user who has a wizard session and a match session, with a
  wizard engine that accepts the event: \<open>handleCallbackQuery\<close> calls the wizard
  session and then the match session as well. \<open>route\<close>, on a text message of the same
  user in the same registry, stops after the wizard session.
\<close>

theorem handleCallbackQuery_runs_both_handlers:
  "fst (userBuildingSession example_manager (U_ID example_user)) = Some example_wizard
   \<and> handleCallbackQuery accepting_builder accepting_match example_user button_update
        ([], (example_manager, ()))
      = Return (None, [Call_BuilderExecute example_wizard, Call_MatchExecute example_session 7],
                (example_manager, ()))
   \<and> route (\<lambda>h. \<lparr> commandFn = (\<lambda>u c s. (None, s)), middlewareFn = [] \<rparr>) (\<lambda>cb text s. (None, s)) accepting_builder accepting_match example_user text_update
        ([], (example_manager, ()))
      = Return (None, [Call_BuilderExecute example_wizard], (example_manager, ()))"
  by (simp add: handleCallbackQuery_def callback_match_block_def route_def accepting_builder_def
      accepting_match_def button_update_def text_update_def example_user_def example_manager_def
      userBuildingSession_def userMatchSession_def commandHandler_def commandCbHandler_def
      example_message_def)

subsection \<open>Resolving the sender\<close>

text \<open>
  C9. If the user store's fetch for the sender of an event fails with an error that is
  not the not-found sentinel, \<open>recvUser\<close> goes on with the user record that the fetch
  returned beside the error (the zero-valued record, for a store that returns no user
  with an error) and asks for its rating; when that lookup reports not-found, it
  returns this record and no error. The user store is not written.
\<close>

theorem recvUser_swallows_fetch_error:
  assumes sender: "(Upd_CallbackQuery upd = Some q \<and> Cq_From q = Some tgUser)
              \<or> (Upd_CallbackQuery upd = None \<and> Upd_Message upd = Some msg \<and> Msg_From msg = Some tgUser)"
    and fetch: "Fetch (Tg_ID tgUser) w = ((fetched, Some e), w1)"
    and other: "\<not> errors_Is e UserDb_ErrNotFound"
    and rating: "FetchRateStat (U_ID fetched) w1 = ((st, Some re), w2)"
    and notfound: "errors_Is re StatDb_ErrNotFound"
  shows "recvUser Fetch Store FetchRateStat admin statusActive now upd w = Return ((fetched, None), w2)"
  using assms by (auto simp: recvUser_def Let_def)

theorem recvUser_swallows_fetch_error_witness:
  "\<not> errors_Is (OtherError ''timeout'') UserDb_ErrNotFound
   \<and> errors_Is (Errorf ''rate'' StatDb_ErrNotFound) StatDb_ErrNotFound
   \<and> recvUser (\<lambda>i w. ((zero_User, Some (OtherError ''timeout'')), w)) failing_store
        (\<lambda>i w. ((\<lparr> RS_Stars = 0, RS_Bloops = 0 \<rparr>, Some (Errorf ''rate'' StatDb_ErrNotFound)), w))
        ''ann'' 1 (\<lambda>w. 0) text_update ()
      = Return ((zero_User, None), ())"
  using recvUser_swallows_fetch_error [where upd = text_update and msg = example_message
      and tgUser = example_tg_user and Fetch = "\<lambda>i w. ((zero_User, Some (OtherError ''timeout'')), w)"
      and w = "()" and fetched = zero_User and e = "OtherError ''timeout''" and ?w1.0 = "()"
      and FetchRateStat = "\<lambda>i w. ((\<lparr> RS_Stars = 0, RS_Bloops = 0 \<rparr>, Some (Errorf ''rate'' StatDb_ErrNotFound)), w)"
      and st = "\<lparr> RS_Stars = 0, RS_Bloops = 0 \<rparr>" and re = "Errorf ''rate'' StatDb_ErrNotFound"
      and ?w2.0 = "()" and Store = failing_store and admin = "''ann''" and statusActive = 1
      and now = "\<lambda>w. 0"]
  by (simp add: text_update_def example_message_def)

subsection \<open>Command handlers\<close>

text \<open>
  The loop of \<open>execute\<close> against the verdict of the predicates: what is returned, the
  state that is left, and how often the command body has run.
\<close>

lemma execute_loop_verdict:
  assumes "execute_loop fs body u c (tr0, s) = (r, tr, s'')"
    and "middleware_verdict fs u c s = (v, s')"
  shows "case v of
           Abort e \<Rightarrow> r = Some (Errorf ''command handler execute'' e) \<and> s'' = s'
                      \<and> count_list tr Call_CommandFn = count_list tr0 Call_CommandFn
         | Drop \<Rightarrow> r = None \<and> s'' = s' \<and> count_list tr Call_CommandFn = count_list tr0 Call_CommandFn
         | Pass \<Rightarrow> (r, s'') = body u c s'
                   \<and> count_list tr Call_CommandFn = count_list tr0 Call_CommandFn + 1"
  using assms
proof (induction fs arbitrary: tr0 s)
  case Nil
  then show ?case by (auto split: prod.splits)
next
  case (Cons f fs)
  obtain ok err s1 where f: "f u c s = ((ok, err), s1)"
    by (metis surj_pair)
  show ?case
  proof (cases err)
    case (Some e)
    with f Cons.prems show ?thesis by auto
  next
    case None
    show ?thesis
    proof (cases ok)
      case False
      with f None Cons.prems show ?thesis by auto
    next
      case True
      with f None Cons.prems
      have "execute_loop fs body u c (tr0 @ [Call_Middleware], s1) = (r, tr, s'')"
        and "middleware_verdict fs u c s1 = (v, s')"
        by auto
      from Cons.IH [OF this] show ?thesis
        by (auto split: verdict.splits)
    qed
  qed
qed

text \<open>
  C7. For every command-table entry and every user, chat and state, with the predicates
  evaluated in order: if a predicate fails, \<open>execute\<close> returns that error (wrapped
  under its context) and the command body does not run; if a predicate says "do not
  proceed", \<open>execute\<close> returns no error and the command body does not run; if every
  predicate passes, the command body runs once, on the state the predicates left, and
  its result is returned. The command body runs if and only if every predicate passes.
\<close>

theorem execute_runs_body_iff_all_pass:
  assumes "execute t u chatID ([], s) = (r, tr, s'')"
    and "middleware_verdict (middlewareFn t) u chatID s = (v, s')"
  shows "(\<forall>e. v = Abort e \<longrightarrow>
            r = Some (Errorf ''command handler execute'' e) \<and> s'' = s' \<and> Call_CommandFn \<notin> set tr)
       \<and> (v = Drop \<longrightarrow> r = None \<and> s'' = s' \<and> Call_CommandFn \<notin> set tr)
       \<and> (v = Pass \<longrightarrow> (r, s'') = commandFn t u chatID s' \<and> count_list tr Call_CommandFn = 1)
       \<and> (Call_CommandFn \<in> set tr \<longleftrightarrow> v = Pass)"
proof -
  have "execute_loop (middlewareFn t) (commandFn t) u chatID ([], s) = (r, tr, s'')"
    using assms(1) by (simp add: execute_def)
  from execute_loop_verdict [OF this assms(2)]
  have verdict: "case v of
           Abort e \<Rightarrow> r = Some (Errorf ''command handler execute'' e) \<and> s'' = s'
                      \<and> count_list tr Call_CommandFn = 0
         | Drop \<Rightarrow> r = None \<and> s'' = s' \<and> count_list tr Call_CommandFn = 0
         | Pass \<Rightarrow> (r, s'') = commandFn t u chatID s' \<and> count_list tr Call_CommandFn = 1"
    by (cases v) simp_all
  have ran: "Call_CommandFn \<in> set tr \<longleftrightarrow> count_list tr Call_CommandFn \<noteq> 0"
    by (simp add: count_list_0_iff)
  from verdict show ?thesis
    unfolding ran by (cases v) simp_all
qed


theorem execute_runs_body_iff_all_pass_witness:
  "execute aborted_entry example_user 70 ([], 0)
     = (Some (Errorf ''command handler execute'' (OtherError ''store down'')),
        [Call_Middleware, Call_Middleware], 0)
   \<and> middleware_verdict (middlewareFn aborted_entry) example_user 70 0 = (Abort (OtherError ''store down''), 0)
   \<and> execute dropped_entry example_user 70 ([], 0) = (None, [Call_Middleware, Call_Middleware], 0)
   \<and> middleware_verdict (middlewareFn dropped_entry) example_user 70 0 = (Drop, 0)
   \<and> execute passed_entry example_user 70 ([], 0)
     = (None, [Call_Middleware, Call_Middleware, Call_CommandFn], 1)
   \<and> middleware_verdict (middlewareFn passed_entry) example_user 70 0 = (Pass, 0)
   \<and> Call_CommandFn \<notin> set [Call_Middleware, Call_Middleware]
   \<and> count_list [Call_Middleware, Call_Middleware, Call_CommandFn] Call_CommandFn = 1"
proof -
  have ea: "execute aborted_entry example_user 70 ([], 0)
     = (Some (Errorf ''command handler execute'' (OtherError ''store down'')),
        [Call_Middleware, Call_Middleware], 0)"
    by (simp add: execute_def aborted_entry_def passing_def erring_def)
  have va: "middleware_verdict (middlewareFn aborted_entry) example_user 70 0
     = (Abort (OtherError ''store down''), 0)"
    by (simp add: aborted_entry_def passing_def erring_def)
  have ed: "execute dropped_entry example_user 70 ([], 0) = (None, [Call_Middleware, Call_Middleware], 0)"
    by (simp add: execute_def dropped_entry_def passing_def refusing_def)
  have vd: "middleware_verdict (middlewareFn dropped_entry) example_user 70 0 = (Drop, 0)"
    by (simp add: dropped_entry_def passing_def refusing_def)
  have ep: "execute passed_entry example_user 70 ([], 0)
     = (None, [Call_Middleware, Call_Middleware, Call_CommandFn], 1)"
    by (simp add: execute_def passed_entry_def passing_def counting_body_def)
  have vp: "middleware_verdict (middlewareFn passed_entry) example_user 70 0 = (Pass, 0)"
    by (simp add: passed_entry_def passing_def)
  from execute_runs_body_iff_all_pass [OF ea va] execute_runs_body_iff_all_pass [OF ed vd]
  have no_body: "Call_CommandFn \<notin> set [Call_Middleware, Call_Middleware]"
    by blast
  from execute_runs_body_iff_all_pass [OF ep vp]
  have one_body: "count_list [Call_Middleware, Call_Middleware, Call_CommandFn] Call_CommandFn = 1"
    by blast
  from ea va ed vd ep vp no_body one_body show ?thesis
    by blast
qed

subsection \<open>Startup recovery\<close>

text \<open>The two loops of \<open>restoreInterruptedGames\<close> add only their own calls to the trace.\<close>

lemma move_states_calls_subset:
  "set (fst (move_states MoveState sessions (tr, w)))
     \<subseteq> set tr \<union> {c. \<exists>session st. c = Call_MoveState session st}"
proof (induction sessions arbitrary: tr w)
  case Nil
  show ?case by simp
next
  case (Cons session sessions)
  from Cons.IH [of "tr @ [Call_MoveState session (State session)]" "MoveState session (State session) w"]
  show ?case by auto
qed

lemma move_states_calls:
  assumes "move_states MoveState sessions (tr, w) = (tr', w')" and "c \<in> set tr'"
  shows "c \<in> set tr \<or> (\<exists>session st. c = Call_MoveState session st)"
  using move_states_calls_subset [of MoveState sessions tr w] assms by auto

lemma restore_states_calls_subset:
  "set (fst (restore_states Run fresh tg states (tr, m, w)))
     \<subseteq> set tr \<union> {c. \<exists>session. c = Call_Run session}"
proof (induction states arbitrary: tr m w)
  case Nil
  show ?case by simp
next
  case (Cons state states)
  show ?case
    unfolding restore_states.simps Let_def
    by (rule subset_trans [OF Cons.IH]) auto
qed

lemma restore_states_calls:
  assumes "restore_states Run fresh tg states (tr, m, w) = (tr', m', w')" and "c \<in> set tr'"
  shows "c \<in> set tr \<or> (\<exists>session. c = Call_Run session)"
  using restore_states_calls_subset [of Run fresh tg states tr m w] assms by auto

text \<open>
  C6. On startup recovery, from any registry and world: when the state store returns
  no snapshot, with no error or with its entry-not-found sentinel, the method returns no
  error, the registry is unchanged, no session is started and the store is not cleared;
  the store's clear is called exactly when the fetch did not fail and returned at least
  one snapshot; and when the clear can only report a missing bucket (and the fetch did
  not fail), the method returns no error.
\<close>

theorem restoreInterruptedGames_empty_and_clean:
  fixes m :: "('cb, 'h) manager"
  shows "let fetched = fst (FetchAll w);
             fetch_ok = nil_or StateDb_ErrEntryNotFound (snd fetched);
             res = restoreInterruptedGames FetchAll Clean Run MoveState ranged fresh tg ([], m, w);
             calls = fst (snd res)
         in (fst fetched = [] \<and> fetch_ok \<longrightarrow>
               fst res = None \<and> fst (snd (snd res)) = m
               \<and> (\<forall>session. Call_Run session \<notin> set calls) \<and> Call_StateDb_Clean \<notin> set calls)
          \<and> (Call_StateDb_Clean \<in> set calls \<longleftrightarrow> fst fetched \<noteq> [] \<and> fetch_ok)
          \<and> (fetch_ok \<and> (\<forall>x. nil_or StateDb_ErrBucketNotFound (fst (Clean x))) \<longrightarrow> fst res = None)"
proof -
  obtain states err w1 where F: "FetchAll w = ((states, err), w1)"
    by (metis surj_pair)
  obtain tr2 m2 w2 where
    R: "restore_states Run fresh tg states ([Call_StateDb_FetchAll], m, w1) = (tr2, m2, w2)"
    by (metis surj_pair)
  obtain tr3 w3 where M: "move_states MoveState (ranged (matchSessions m2)) (tr2, w2) = (tr3, w3)"
    by (metis surj_pair)
  obtain ce w4 where C: "Clean w3 = (ce, w4)"
    by (metis surj_pair)
  have tr2: "c \<in> set tr2 \<Longrightarrow> c = Call_StateDb_FetchAll \<or> (\<exists>session. c = Call_Run session)" for c
    using restore_states_calls [OF R] by auto
  have tr3: "c \<in> set tr3 \<Longrightarrow>
      c = Call_StateDb_FetchAll \<or> (\<exists>session. c = Call_Run session)
      \<or> (\<exists>session st. c = Call_MoveState session st)" for c
    using move_states_calls [OF M] tr2 by blast
  have no_clean: "Call_StateDb_Clean \<notin> set tr3"
    using tr3 by blast
  have empty: "states = [] \<Longrightarrow> m2 = m \<and> tr2 = [Call_StateDb_FetchAll]"
    using R by simp
  have no_run: "states = [] \<Longrightarrow> Call_Run session \<notin> set tr3" for session
    using move_states_calls [OF M, of "Call_Run session"] empty by auto
  let ?res = "restoreInterruptedGames FetchAll Clean Run MoveState ranged fresh tg ([], m, w)"
  show ?thesis
  proof (cases "nil_or StateDb_ErrEntryNotFound err")
    case False
    then have "fst (snd ?res) = [Call_StateDb_FetchAll]"
      using F by (auto simp: restoreInterruptedGames_def nil_or_def Let_def split: option.splits)
    with False F show ?thesis
      by (simp add: Let_def)
  next
    case True
    then have res: "?res
      = (if length states > 0
         then (case ce of
                 Some e \<Rightarrow> if \<not> errors_Is e StateDb_ErrBucketNotFound
                           then (Some (Errorf ''state db clean'' e), tr3 @ [Call_StateDb_Clean], m2, w4)
                           else (None, tr3 @ [Call_StateDb_Clean], m2, w4)
               | None \<Rightarrow> (None, tr3 @ [Call_StateDb_Clean], m2, w4))
         else (None, tr3, m2, w3))"
      using F R M C by (auto simp: restoreInterruptedGames_def nil_or_def Let_def split: option.splits)
    have first: "states = [] \<Longrightarrow> fst ?res = None \<and> fst (snd (snd ?res)) = m
        \<and> (\<forall>session. Call_Run session \<notin> set (fst (snd ?res)))
        \<and> Call_StateDb_Clean \<notin> set (fst (snd ?res))"
      using res empty no_run no_clean by simp
    have second: "Call_StateDb_Clean \<in> set (fst (snd ?res)) \<longleftrightarrow> states \<noteq> []"
      using res no_clean by (simp split: option.splits)
    have third: "fst ?res = None" if "\<forall>x. nil_or StateDb_ErrBucketNotFound (fst (Clean x))"
    proof -
      from that have "nil_or StateDb_ErrBucketNotFound (fst (Clean w3))" ..
      with C have "nil_or StateDb_ErrBucketNotFound ce" by simp
      with res show ?thesis
        by (simp add: nil_or_def split: option.splits)
    qed
    from first second third True F show ?thesis
      by (simp add: Let_def)
  qed
qed

theorem restoreInterruptedGames_empty_and_clean_witness:
  "nil_or StateDb_ErrEntryNotFound (snd (fst (empty_state_store ())))
   \<and> fst (fst (empty_state_store ())) = []
   \<and> fst (restoreInterruptedGames empty_state_store missing_bucket idle_Run idle_MoveState
           sessions_of_42 fresh_session 0 ([], NewManager :: (nat, nat) manager, ())) = None
   \<and> fst (snd (restoreInterruptedGames empty_state_store missing_bucket idle_Run idle_MoveState
           sessions_of_42 fresh_session 0 ([], NewManager :: (nat, nat) manager, ())))
        = [Call_StateDb_FetchAll]
   \<and> fst (fst (one_snapshot_store ())) \<noteq> []
   \<and> (\<forall>x. nil_or StateDb_ErrBucketNotFound (fst (missing_bucket x)))
   \<and> fst (restoreInterruptedGames one_snapshot_store missing_bucket idle_Run idle_MoveState
           sessions_of_42 fresh_session 0 ([], NewManager :: (nat, nat) manager, ())) = None
   \<and> Call_StateDb_Clean \<in> set (fst (snd (restoreInterruptedGames one_snapshot_store missing_bucket
           idle_Run idle_MoveState sessions_of_42 fresh_session 0
           ([], NewManager :: (nat, nat) manager, ()))))"
proof -
  have e1: "nil_or StateDb_ErrEntryNotFound (snd (fst (empty_state_store ())))"
    and e2: "fst (fst (empty_state_store ())) = []"
    by (simp_all add: nil_or_def empty_state_store_def)
  have o1: "nil_or StateDb_ErrEntryNotFound (snd (fst (one_snapshot_store ())))"
    and o2: "fst (fst (one_snapshot_store ())) \<noteq> []"
    by (simp_all add: nil_or_def one_snapshot_store_def)
  have b: "\<forall>x. nil_or StateDb_ErrBucketNotFound (fst (missing_bucket x))"
    by (simp add: nil_or_def missing_bucket_def)
  have trace: "fst (snd (restoreInterruptedGames empty_state_store missing_bucket idle_Run idle_MoveState
           sessions_of_42 fresh_session 0 ([], NewManager :: (nat, nat) manager, ())))
        = [Call_StateDb_FetchAll]"
    by (simp add: restoreInterruptedGames_def empty_state_store_def sessions_of_42_def NewManager_def)
  from restoreInterruptedGames_empty_and_clean [where FetchAll = empty_state_store and w = "()"
      and Clean = missing_bucket and Run = idle_Run and MoveState = idle_MoveState
      and ranged = sessions_of_42 and fresh = fresh_session and tg = 0
      and m = "NewManager :: (nat, nat) manager"] e1 e2
  have empty: "fst (restoreInterruptedGames empty_state_store missing_bucket idle_Run idle_MoveState
           sessions_of_42 fresh_session 0 ([], NewManager :: (nat, nat) manager, ())) = None"
    by (simp add: Let_def)
  from restoreInterruptedGames_empty_and_clean [where FetchAll = one_snapshot_store and w = "()"
      and Clean = missing_bucket and Run = idle_Run and MoveState = idle_MoveState
      and ranged = sessions_of_42 and fresh = fresh_session and tg = 0
      and m = "NewManager :: (nat, nat) manager"] o1 o2 b
  have one: "fst (restoreInterruptedGames one_snapshot_store missing_bucket idle_Run idle_MoveState
           sessions_of_42 fresh_session 0 ([], NewManager :: (nat, nat) manager, ())) = None
      \<and> Call_StateDb_Clean \<in> set (fst (snd (restoreInterruptedGames one_snapshot_store missing_bucket
           idle_Run idle_MoveState sessions_of_42 fresh_session 0
           ([], NewManager :: (nat, nat) manager, ()))))"
    by (simp add: Let_def)
  from e1 e2 o2 b trace empty one show ?thesis
    by blast
qed

end
